theory Spec2Isabelle
  imports Complex_Main "HOL-Library.Char_ord" "HOL-Library.List_Lexorder" "HOL-Library.Option_ord"
begin

section \<open>The weather_data table\<close>

text \<open>
  \<^verbatim>\<open>init_db\<close> creates one table, \<^verbatim>\<open>weather_data(timestamp TEXT PRIMARY KEY,
  temperature REAL, humidity REAL)\<close>. A row is a record of its three columns. The
  timestamp is the text the provider sent, as the bytes SQLite stores and compares
  (\<open>string\<close> is a list of bytes, ordered lexicographically by byte value, which is
  SQLite's default collation for TEXT). A REAL column holds a number or NULL; the
  numbers are modelled as reals, of which every finite double is one.
\<close>

record observation =
  timestamp :: string
  temperature :: "real option"
  humidity :: "real option"

text \<open>The table is the list of its rows, oldest insertion first.\<close>

type_synonym weather_data = "observation list"

text \<open>
  \<^verbatim>\<open>CREATE TABLE IF NOT EXISTS\<close>: a database file without the table (\<open>None\<close>) gets
  the empty table, an existing table is kept as it is.
\<close>

definition init_db :: "weather_data option \<Rightarrow> weather_data" where
  "init_db file = (case file of None \<Rightarrow> [] | Some t \<Rightarrow> t)"

text \<open>
  \<^verbatim>\<open>INSERT OR REPLACE INTO weather_data (timestamp, temperature, humidity) VALUES (?, ?, ?)\<close>:
  the row that holds the new row's primary key is deleted, then the new row is added.
\<close>

definition insert_or_replace :: "weather_data \<Rightarrow> observation \<Rightarrow> weather_data" where
  "insert_or_replace t r = filter (\<lambda>x. timestamp x \<noteq> timestamp r) t @ [r]"

text \<open>The loop of \<^verbatim>\<open>weather_report\<close> without a storage fault: one statement per tuple.\<close>

fun upsert_all :: "weather_data \<Rightarrow> observation list \<Rightarrow> weather_data" where
  "upsert_all t [] = t"
| "upsert_all t (r # rs) = upsert_all (insert_or_replace t r) rs"

text \<open>The primary key: no two rows of the table share a timestamp.\<close>

definition primary_key :: "weather_data \<Rightarrow> bool" where
  "primary_key t \<longleftrightarrow> distinct (map timestamp t)"

section \<open>Ingest: the handler of /weather-report\<close>

text \<open>
  The handlers answer with a value or with one of these failures. The first four are
  the JSON error bodies of the source: \<^verbatim>\<open>"Missing lat or lon"\<close> (400),
  \<^verbatim>\<open>"Request failed: ..."\<close> (500), \<^verbatim>\<open>"Other error: ..."\<close> (500) and
  \<^verbatim>\<open>"No data available for the last 48 hours"\<close> (404). \<open>Uncaught\<close> is an exception
  that no handler catches (\<^verbatim>\<open>export_pdf\<close> has no \<^verbatim>\<open>try\<close>).
\<close>

datatype error = MissingLatOrLon | RequestFailed | OtherError | NoDataAvailable | Uncaught

fun status_code :: "error \<Rightarrow> nat" where
  "status_code MissingLatOrLon = 400"
| "status_code RequestFailed = 500"
| "status_code OtherError = 500"
| "status_code NoDataAvailable = 404"
| "status_code Uncaught = 500"

text \<open>
  What the provider does with the one request: \<open>RequestException\<close> stands for
  \<^verbatim>\<open>requests.get\<close>, \<^verbatim>\<open>raise_for_status\<close> or \<^verbatim>\<open>json\<close> raising a
  \<^verbatim>\<open>RequestException\<close>, \<open>PayloadError\<close> for any other exception while the payload
  is read (a missing \<^verbatim>\<open>"hourly"\<close> key, say), and \<open>Hourly\<close> carries
  \<^verbatim>\<open>data["hourly"]["time"]\<close>, \<^verbatim>\<open>["temperature_2m"]\<close> and
  \<^verbatim>\<open>["relative_humidity_2m"]\<close>; a JSON \<^verbatim>\<open>null\<close> is \<open>None\<close>.
\<close>

datatype reply =
    RequestException
  | PayloadError
  | Hourly "string list" "real option list" "real option list"

text \<open>
  What the storage medium does during the request: nothing, or it makes
  \<^verbatim>\<open>sqlite3.connect\<close>, the \<open>k\<close>-th \<^verbatim>\<open>c.execute\<close> of the loop (from 0) or
  \<^verbatim>\<open>conn.commit\<close> raise.
\<close>

datatype fault = NoFault | ConnectFails | ExecuteFails nat | CommitFails

text \<open>
  The state outside the handlers: the committed content of \<^verbatim>\<open>weather.db\<close>, the URLs
  requested from the provider, and the names of the files written to the working
  directory.
\<close>

record world =
  db :: weather_data
  requests_sent :: "string list"
  files :: "string list"

definition forecast_url :: "string \<Rightarrow> string \<Rightarrow> string" where
  "forecast_url lat lon =
     ''https://api.open-meteo.com/v1/forecast'' @
     ''?latitude='' @ lat @ ''&longitude='' @ lon @
     ''&hourly=temperature_2m,relative_humidity_2m&past_days=2&timezone=UTC''"

text \<open>\<^verbatim>\<open>not lat\<close>: the argument is absent or the empty string.\<close>

definition falsy :: "string option \<Rightarrow> bool" where
  "falsy a \<longleftrightarrow> (case a of None \<Rightarrow> True | Some s \<Rightarrow> s = [])"

definition arg_text :: "string option \<Rightarrow> string" where
  "arg_text a = (case a of None \<Rightarrow> [] | Some s \<Rightarrow> s)"

text \<open>
  \<^verbatim>\<open>zip(timestamps, temperatures, humidities)\<close> stops at the end of the shortest of the
  three lists, as \<open>zip\<close> does.
\<close>

definition zip3 :: "string list \<Rightarrow> real option list \<Rightarrow> real option list \<Rightarrow> observation list" where
  "zip3 timestamps temperatures humidities =
     map (\<lambda>(ts, temp, hum). \<lparr>timestamp = ts, temperature = temp, humidity = hum\<rparr>)
       (zip timestamps (zip temperatures humidities))"

text \<open>
  The loop inside the transaction that the first INSERT opens on the connection: the
  statements change the connection's view \<open>txn\<close> of the table. A raising
  \<^verbatim>\<open>c.execute\<close> ends the loop with the exception (\<open>None\<close>).
\<close>

fun execute_loop :: "fault \<Rightarrow> nat \<Rightarrow> weather_data \<Rightarrow> observation list \<Rightarrow> weather_data option" where
  "execute_loop f i txn [] = Some txn"
| "execute_loop f i txn (r # rs) =
     (if f = ExecuteFails i then None
      else execute_loop f (Suc i) (insert_or_replace txn r) rs)"

text \<open>
  \<^verbatim>\<open>weather_report\<close>. The only \<^verbatim>\<open>conn.commit()\<close> follows the loop; both
  \<^verbatim>\<open>except\<close> clauses return without it, so the transaction is discarded with the
  connection and the database file keeps its committed content. The count reported is
  \<^verbatim>\<open>len(timestamps)\<close>.
\<close>

definition weather_report ::
  "reply \<Rightarrow> fault \<Rightarrow> string option \<Rightarrow> string option \<Rightarrow> world \<Rightarrow> (error + nat) \<times> world" where
  "weather_report provider f lat lon w =
     (if falsy lat \<or> falsy lon then (Inl MissingLatOrLon, w)
      else
        let w1 = w\<lparr>requests_sent := requests_sent w @ [forecast_url (arg_text lat) (arg_text lon)]\<rparr>
        in case provider of
             RequestException \<Rightarrow> (Inl RequestFailed, w1)
           | PayloadError \<Rightarrow> (Inl OtherError, w1)
           | Hourly timestamps temperatures humidities \<Rightarrow>
               (if f = ConnectFails then (Inl OtherError, w1)
                else case execute_loop f 0 (db w1) (zip3 timestamps temperatures humidities) of
                       None \<Rightarrow> (Inl OtherError, w1)
                     | Some txn \<Rightarrow>
                         if f = CommitFails then (Inl OtherError, w1)
                         else (Inr (length timestamps), w1\<lparr>db := txn\<rparr>)))"

section \<open>The two exports\<close>

text \<open>\<^verbatim>\<open>SELECT * FROM weather_data ORDER BY timestamp ASC\<close>.\<close>

definition select_asc :: "weather_data \<Rightarrow> observation list" where
  "select_asc t = sort_key timestamp t"

text \<open>\<^verbatim>\<open>SELECT * FROM weather_data ORDER BY timestamp DESC LIMIT 48\<close>.\<close>

definition select_desc_limit_48 :: "weather_data \<Rightarrow> observation list" where
  "select_desc_limit_48 t = take 48 (rev (sort_key timestamp t))"

text \<open>
  The sheet that \<^verbatim>\<open>df.to_excel(excel_file, index=False)\<close> writes: the column names
  of the query as the header row, then one row per row of the frame.
\<close>

record sheet =
  header :: "string list"
  data_rows :: "observation list"

definition export_excel :: "world \<Rightarrow> sheet \<times> world" where
  "export_excel w =
     (\<lparr>header = [''timestamp'', ''temperature'', ''humidity''],
       data_rows = select_desc_limit_48 (db w)\<rparr>,
      w\<lparr>files := files w @ [''weather_data_last_48h.xlsx'']\<rparr>)"

subsection \<open>The format \<^verbatim>\<open>.1f\<close>\<close>

definition digit_char :: "nat \<Rightarrow> char" where
  "digit_char d = ''0123456789'' ! d"

fun decimal :: "nat \<Rightarrow> string" where
  "decimal n = (if n < 10 then [digit_char n] else decimal (n div 10) @ [digit_char (n mod 10)])"

declare decimal.simps [simp del]

text \<open>Rounding to the nearest integer, a tie to the even one.\<close>

definition round_half_even :: "real \<Rightarrow> int" where
  "round_half_even x =
     (let f = \<lfloor>x\<rfloor>; d = x - of_int f
      in if d < 1 / 2 then f else if 1 / 2 < d then f + 1 else if even f then f else f + 1)"

text \<open>
  \<^verbatim>\<open>f"{x:.1f}"\<close> for a finite \<open>x\<close>: the sign, the integer part, a point and one
  digit, of the decimal nearest to \<open>x\<close> (a negative zero, which a real does not
  tell from zero, only differs in the sign).
\<close>

definition format_1f :: "real \<Rightarrow> string" where
  "format_1f x =
     (let n = nat (round_half_even (\<bar>x\<bar> * 10))
      in (if x < 0 then ''-'' else []) @ decimal (n div 10) @ ''.'' @ [digit_char (n mod 10)])"

text \<open>
  A cell of the frame's temperature or humidity column, formatted. pandas reads a
  column in which every value is NULL as a column of \<^verbatim>\<open>None\<close> objects, on which the
  format raises TypeError (the result \<open>None\<close>); in any other column a NULL becomes
  the float NaN, which the format prints as \<^verbatim>\<open>nan\<close>.
\<close>

definition format_cell :: "bool \<Rightarrow> real option \<Rightarrow> string option" where
  "format_cell all_null v =
     (case v of
        Some x \<Rightarrow> Some (format_1f x)
      | None \<Rightarrow> if all_null then None else Some ''nan'')"



subsection \<open>The report\<close>

text \<open>The flowables of reportlab that the story is made of.\<close>

datatype flowable =
    Paragraph string string
  | Spacer nat nat
  | Image string nat nat
  | Table "string list list"

definition arrow :: string where
  "arrow = [CHR 0xE2, CHR 0x86, CHR 0x92]"

definition degree :: string where
  "degree = [CHR 0xC2, CHR 0xB0]"

definition table_header :: "string list" where
  "table_header = [''Timestamp'', ''Temperature ('' @ degree @ ''C)'', ''Humidity (%)'']"

text \<open>\<^verbatim>\<open>request.args.get("lat", "N/A")\<close>.\<close>

definition arg_or_na :: "string option \<Rightarrow> string" where
  "arg_or_na a = (case a of None \<Rightarrow> ''N/A'' | Some s \<Rightarrow> s)"

text \<open>
  One row of the sample table, from a row of the frame and its converted timestamp;
  \<open>None\<close> when a format raises.
\<close>

definition table_row ::
  "('d \<Rightarrow> string) \<Rightarrow> bool \<Rightarrow> bool \<Rightarrow> 'd \<times> observation \<Rightarrow> string list option" where
  "table_row strftime temp_null hum_null p =
     (case format_cell temp_null (temperature (snd p)) of
        None \<Rightarrow> None
      | Some a \<Rightarrow>
          (case format_cell hum_null (humidity (snd p)) of
             None \<Rightarrow> None
           | Some b \<Rightarrow> Some [strftime (fst p), a, b]))"

text \<open>
  The conversions of pandas are parameters of the report: \<open>to_datetime\<close> is
  \<^verbatim>\<open>pd.to_datetime\<close> on one timestamp of the column (\<open>None\<close> where it raises) into
  a linearly ordered type of points in time, and \<open>strftime\<close> is
  \<^verbatim>\<open>.strftime("%Y-%m-%d %H:%M")\<close>.
\<close>

text \<open>
  \<^verbatim>\<open>f"{df['timestamp'].min().strftime(...)} -> {df['timestamp'].max().strftime(...)}"\<close>
  (the source writes the arrow U+2192), over the whole column.
\<close>

definition date_range :: "('d::linorder \<Rightarrow> string) \<Rightarrow> 'd list \<Rightarrow> string" where
  "date_range strftime stamps =
     strftime (Min (set stamps)) @ '' '' @ arrow @ '' '' @ strftime (Max (set stamps))"

text \<open>
  \<^verbatim>\<open>table_data\<close>: the header, then the rows of \<^verbatim>\<open>df.head(10)\<close>; \<open>None\<close> when a
  format raises.
\<close>

definition sample_table ::
  "('d \<Rightarrow> string) \<Rightarrow> 'd list \<Rightarrow> observation list \<Rightarrow> string list list option" where
  "sample_table strftime stamps df =
     (case those (map (table_row strftime
                         (list_all Option.is_none (map temperature df))
                         (list_all Option.is_none (map humidity df)))
                      (take 10 (zip stamps df))) of
        None \<Rightarrow> None
      | Some body \<Rightarrow> Some (table_header # body))"

text \<open>
  \<^verbatim>\<open>Paragraph(text, style)\<close>: reportlab parses the text as markup when the paragraph
  is made and raises ValueError on a text it cannot parse (the result \<open>None\<close>). The
  parser is a parameter of the report: \<open>markup text\<close> says that it accepts the text.
\<close>

definition new_paragraph :: "(string \<Rightarrow> bool) \<Rightarrow> string \<Rightarrow> string \<Rightarrow> flowable option" where
  "new_paragraph markup text style = (if markup text then Some (Paragraph text style) else None)"

text \<open>
  The story in the order in which the source makes its flowables: the title, the
  location with the caller's \<^verbatim>\<open>lat\<close> and \<^verbatim>\<open>lon\<close> put into the markup as they came, the
  date range, the chart (its file exists when it is tested, \<^verbatim>\<open>plt.savefig\<close> having just
  written it), and the table, whose cells are formatted last. \<open>None\<close> when one of
  them raises.
\<close>

definition story ::
  "(string \<Rightarrow> bool) \<Rightarrow> string option \<Rightarrow> string option \<Rightarrow> string \<Rightarrow> string list list option \<Rightarrow>
   flowable list option" where
  "story markup lat lon range_text table_data =
     (case new_paragraph markup ''Weather Report'' ''Title'' of
        None \<Rightarrow> None
      | Some title \<Rightarrow>
          (case new_paragraph markup
                  (''<b>Location:</b> ('' @ arg_or_na lat @ '', '' @ arg_or_na lon @ '')'')
                  ''Normal'' of
             None \<Rightarrow> None
           | Some location \<Rightarrow>
               (case new_paragraph markup (''<b>Date Range:</b> '' @ range_text) ''Normal'' of
                  None \<Rightarrow> None
                | Some dates \<Rightarrow>
                    (case table_data of
                       None \<Rightarrow> None
                     | Some cells \<Rightarrow>
                         Some [title, Spacer 1 12, location, dates, Spacer 1 12,
                               Image ''chart.png'' 500 250, Spacer 1 12, Table cells]))))"

text \<open>
  \<^verbatim>\<open>export_pdf\<close>. The pixels of the chart and the bytes of the PDF are the rendering
  libraries' work; the model keeps the story handed to \<^verbatim>\<open>doc.build\<close>. The handler
  has no \<^verbatim>\<open>try\<close>: an exception of the conversion, of a paragraph or of a format leaves
  it uncaught, after the chart has been written in the last two cases.
\<close>

definition export_pdf ::
  "(string \<Rightarrow> 'd::linorder option) \<Rightarrow> ('d \<Rightarrow> string) \<Rightarrow> (string \<Rightarrow> bool) \<Rightarrow>
   string option \<Rightarrow> string option \<Rightarrow> world \<Rightarrow> (error + flowable list) \<times> world" where
  "export_pdf to_datetime strftime markup lat lon w =
     (if select_asc (db w) = [] then (Inl NoDataAvailable, w)
      else
        case those (map (\<lambda>r. to_datetime (timestamp r)) (select_asc (db w))) of
          None \<Rightarrow> (Inl Uncaught, w)
        | Some stamps \<Rightarrow>
            (case story markup lat lon (date_range strftime stamps)
                    (sample_table strftime stamps (select_asc (db w))) of
               None \<Rightarrow> (Inl Uncaught, w\<lparr>files := files w @ [''chart.png'']\<rparr>)
             | Some document \<Rightarrow>
                 (Inr document,
                  w\<lparr>files := files w @ [''chart.png'', ''weather_report_last_48h.pdf'']\<rparr>)))"

section \<open>Timestamps in the provider's format\<close>

text \<open>
  The provider writes a timestamp as \<^verbatim>\<open>YYYY-MM-DDTHH:MM\<close>. For such timestamps the two
  conversions of the report are these: the point in time is the list of year, month,
  day, hour and minute, ordered lexicographically, and the format is
  \<^verbatim>\<open>%Y-%m-%d %H:%M\<close>. They are the instance of the parameters of \<open>export_pdf\<close> on
  which the model is run on concrete tables; the bounds of the year keep the instance
  inside the range of a pandas Timestamp.
\<close>

definition pad2 :: "nat \<Rightarrow> string" where
  "pad2 n = (if n < 10 then ''0'' else []) @ decimal n"





text \<open>
  Sample data: the first \<open>n\<close> hours of January 2024, one row each, as an ingest of
  the provider's hourly series stores them.
\<close>

definition hour_stamp :: "nat \<Rightarrow> string" where
  "hour_stamp h = ''2024-01-'' @ pad2 (1 + h div 24) @ ''T'' @ pad2 (h mod 24) @ '':00''"

definition sample_rows :: "nat \<Rightarrow> weather_data" where
  "sample_rows n =
     map (\<lambda>h. \<lparr>timestamp = hour_stamp h, temperature = Some (real h / 4),
               humidity = Some (80 - real h / 2)\<rparr>) [0..<n]"




section \<open>Properties of the table\<close>

lemma timestamps_insert_or_replace:
  "timestamp ` set (insert_or_replace t r) = insert (timestamp r) (timestamp ` set t)"
  by (auto simp: insert_or_replace_def)

lemma primary_key_insert_or_replace:
  "primary_key t \<Longrightarrow> primary_key (insert_or_replace t r)"
  by (auto simp: primary_key_def insert_or_replace_def distinct_map_filter)

lemma timestamps_upsert_all:
  "timestamp ` set (upsert_all t rs) = timestamp ` set t \<union> timestamp ` set rs"
proof (induction rs arbitrary: t)
  case Nil
  show ?case by simp
next
  case (Cons r rs)
  have "timestamp ` set (upsert_all t (r # rs)) =
        timestamp ` set (insert_or_replace t r) \<union> timestamp ` set rs"
    using Cons.IH [of "insert_or_replace t r"] by simp
  also have "\<dots> = timestamp ` set t \<union> timestamp ` set (r # rs)"
    by (simp add: timestamps_insert_or_replace)
  finally show ?case .
qed

lemma primary_key_upsert_all:
  "primary_key t \<Longrightarrow> primary_key (upsert_all t rs)"
  by (induction rs arbitrary: t) (simp_all add: primary_key_insert_or_replace)

lemma primary_key_init_db: "primary_key (init_db None)"
  by (simp add: primary_key_def init_db_def)

text \<open>
  Claim C1. Whatever sequence of upserts is applied to the table that \<^verbatim>\<open>init_db\<close>
  creates, the table then has as many rows as there are distinct timestamps in the
  sequence.
\<close>

theorem C1_rows_equal_distinct_timestamps:
  "length (upsert_all (init_db None) rs) = card (timestamp ` set rs)"
proof -
  let ?t = "upsert_all (init_db None) rs"
  have "distinct (map timestamp ?t)"
    using primary_key_upsert_all [OF primary_key_init_db] by (simp add: primary_key_def)
  then have "length ?t = card (timestamp ` set ?t)"
    using distinct_card [of "map timestamp ?t"] by simp
  also have "timestamp ` set ?t = timestamp ` set rs"
    by (simp add: timestamps_upsert_all init_db_def)
  finally show ?thesis .
qed

section \<open>Properties of the ingest\<close>

lemma execute_loop_no_execute_fault:
  "\<forall>k. f \<noteq> ExecuteFails k \<Longrightarrow> execute_loop f i txn rs = Some (upsert_all txn rs)"
  by (induction rs arbitrary: i txn) simp_all

lemma execute_loop_fault_inside:
  "i \<le> k \<Longrightarrow> k < i + length rs \<Longrightarrow> execute_loop (ExecuteFails k) i txn rs = None"
proof (induction rs arbitrary: i txn)
  case Nil
  then show ?case by simp
next
  case (Cons r rs)
  show ?case
  proof (cases "k = i")
    case True
    then show ?thesis by simp
  next
    case False
    with Cons.prems have "Suc i \<le> k" and "k < Suc i + length rs" by simp_all
    then have "execute_loop (ExecuteFails k) (Suc i) (insert_or_replace txn r) rs = None"
      by (rule Cons.IH)
    with False show ?thesis by simp
  qed
qed

lemma execute_loop_Some:
  "execute_loop f i txn rs = Some t \<Longrightarrow> t = upsert_all txn rs"
  by (induction rs arbitrary: i txn) (simp_all split: if_splits)

lemma length_zip3:
  "length (zip3 timestamps temperatures humidities) =
     min (length timestamps) (min (length temperatures) (length humidities))"
  by (simp add: zip3_def)

lemma timestamps_zip3:
  "timestamp ` set (zip3 timestamps temperatures humidities) \<subseteq> set timestamps"
  by (auto simp: zip3_def dest: set_zip_leftD)

lemma weather_report_db:
  "db (snd (weather_report provider f lat lon w)) = db w \<or>
   (\<exists>timestamps temperatures humidities.
      provider = Hourly timestamps temperatures humidities \<and>
      fst (weather_report provider f lat lon w) = Inr (length timestamps) \<and>
      db (snd (weather_report provider f lat lon w)) =
        upsert_all (db w) (zip3 timestamps temperatures humidities))"
  by (auto simp: weather_report_def Let_def split: reply.splits option.splits
      dest: execute_loop_Some)

lemma weather_report_success:
  assumes "weather_report provider f lat lon w = (Inr n, w')"
  shows "\<exists>timestamps temperatures humidities.
           provider = Hourly timestamps temperatures humidities \<and> n = length timestamps \<and>
           db w' = upsert_all (db w) (zip3 timestamps temperatures humidities)"
  using assms
  by (auto simp: weather_report_def Let_def split: reply.splits option.splits if_splits
      dest: execute_loop_Some)

lemma filter_insert_or_replace_other:
  "timestamp r \<in> S \<Longrightarrow>
   filter (\<lambda>x. timestamp x \<notin> S) (insert_or_replace t r) = filter (\<lambda>x. timestamp x \<notin> S) t"
  by (auto simp: insert_or_replace_def intro: filter_cong)

lemma filter_upsert_all_other:
  "timestamp ` set rs \<subseteq> S \<Longrightarrow>
   filter (\<lambda>x. timestamp x \<notin> S) (upsert_all t rs) = filter (\<lambda>x. timestamp x \<notin> S) t"
  by (induction rs arbitrary: t) (simp_all add: filter_insert_or_replace_other)

text \<open>
  Claim C2. Two upserts of one timestamp leave exactly one row with that timestamp,
  the row of the second upsert, and the second upsert does not change the number of
  rows; an upsert has no failing outcome. In the scenario of the specification the
  handler stores two rows, and after the second ingest of the same two timestamps
  the table still has two rows, both with temperature 9.9.
\<close>

theorem C2_second_upsert_wins:
  "filter (\<lambda>x. timestamp x = ts)
     (insert_or_replace
        (insert_or_replace t \<lparr>timestamp = ts, temperature = a, humidity = b\<rparr>)
        \<lparr>timestamp = ts, temperature = c, humidity = d\<rparr>) =
     [\<lparr>timestamp = ts, temperature = c, humidity = d\<rparr>] \<and>
   length (insert_or_replace
        (insert_or_replace t \<lparr>timestamp = ts, temperature = a, humidity = b\<rparr>)
        \<lparr>timestamp = ts, temperature = c, humidity = d\<rparr>) =
     length (insert_or_replace t \<lparr>timestamp = ts, temperature = a, humidity = b\<rparr>) \<and>
   weather_report (Hourly [''2024-01-01T00:00'', ''2024-01-01T01:00''] [Some 5, Some 5.5]
        [Some 80, Some 82]) NoFault (Some ''52.52'') (Some ''13.41'')
        \<lparr>db = init_db None, requests_sent = [], files = []\<rparr> =
     (Inr 2,
      \<lparr>db = [\<lparr>timestamp = ''2024-01-01T00:00'', temperature = Some 5, humidity = Some 80\<rparr>,
             \<lparr>timestamp = ''2024-01-01T01:00'', temperature = Some 5.5, humidity = Some 82\<rparr>],
       requests_sent = [forecast_url ''52.52'' ''13.41''], files = []\<rparr>) \<and>
   weather_report (Hourly [''2024-01-01T00:00'', ''2024-01-01T01:00''] [Some 9.9, Some 9.9]
        [Some 80, Some 82]) NoFault (Some ''52.52'') (Some ''13.41'')
        \<lparr>db = [\<lparr>timestamp = ''2024-01-01T00:00'', temperature = Some 5, humidity = Some 80\<rparr>,
               \<lparr>timestamp = ''2024-01-01T01:00'', temperature = Some 5.5, humidity = Some 82\<rparr>],
         requests_sent = [forecast_url ''52.52'' ''13.41''], files = []\<rparr> =
     (Inr 2,
      \<lparr>db = [\<lparr>timestamp = ''2024-01-01T00:00'', temperature = Some 9.9, humidity = Some 80\<rparr>,
             \<lparr>timestamp = ''2024-01-01T01:00'', temperature = Some 9.9, humidity = Some 82\<rparr>],
       requests_sent = [forecast_url ''52.52'' ''13.41'', forecast_url ''52.52'' ''13.41''],
       files = []\<rparr>)"
proof (intro conjI)
  show "filter (\<lambda>x. timestamp x = ts)
     (insert_or_replace
        (insert_or_replace t \<lparr>timestamp = ts, temperature = a, humidity = b\<rparr>)
        \<lparr>timestamp = ts, temperature = c, humidity = d\<rparr>) =
     [\<lparr>timestamp = ts, temperature = c, humidity = d\<rparr>]"
    by (simp add: insert_or_replace_def)
next
  show "length (insert_or_replace
        (insert_or_replace t \<lparr>timestamp = ts, temperature = a, humidity = b\<rparr>)
        \<lparr>timestamp = ts, temperature = c, humidity = d\<rparr>) =
     length (insert_or_replace t \<lparr>timestamp = ts, temperature = a, humidity = b\<rparr>)"
    by (simp add: insert_or_replace_def)
qed (simp_all add: weather_report_def falsy_def arg_text_def zip3_def insert_or_replace_def
    init_db_def)

text \<open>
  Claim C6. When the latitude or the longitude is missing, the handler answers with
  the error for the missing parameter (status 400) and leaves the world as it was: no
  request has been sent to the provider and the table is unchanged, whatever the
  provider and the storage would have done.
\<close>

theorem C6_missing_parameter:
  "lat = None \<or> lon = None \<Longrightarrow>
   weather_report provider f lat lon w = (Inl MissingLatOrLon, w) \<and>
   status_code MissingLatOrLon = 400 \<and>
   requests_sent (snd (weather_report provider f lat lon w)) = requests_sent w \<and>
   db (snd (weather_report provider f lat lon w)) = db w"
  by (auto simp: weather_report_def falsy_def)

theorem C6_missing_parameter_witness:
  "((None :: string option) = None \<or> Some ''10'' = (None :: string option)) \<and>
   weather_report (Hourly [''2024-01-01T00:00''] [Some 5] [Some 80]) NoFault None (Some ''10'')
     \<lparr>db = [], requests_sent = [], files = []\<rparr> =
     (Inl MissingLatOrLon, \<lparr>db = [], requests_sent = [], files = []\<rparr>)"
  using C6_missing_parameter [of None "Some ''10''"
      "Hourly [''2024-01-01T00:00''] [Some 5] [Some 80]" NoFault
      "\<lparr>db = [], requests_sent = [], files = []\<rparr>"]
  by simp

text \<open>
  Claim C7, as the code has it. The claim asks for an error when the three sequences
  differ in length. The handler has no such check: here the provider sends two
  timestamps, one temperature and two humidities, and the handler answers with
  success and the count 2, having stored the one row that \<^verbatim>\<open>zip\<close> pairs up.
\<close>

theorem C7_unequal_lengths_counterexample:
  "length [Some (5 :: real)] \<noteq> length [''2024-01-01T00:00'', ''2024-01-01T01:00''] \<and>
   weather_report (Hourly [''2024-01-01T00:00'', ''2024-01-01T01:00''] [Some 5]
        [Some 80, Some 82]) NoFault (Some ''52.52'') (Some ''13.41'')
        \<lparr>db = [], requests_sent = [], files = []\<rparr> =
     (Inr 2,
      \<lparr>db = [\<lparr>timestamp = ''2024-01-01T00:00'', temperature = Some 5, humidity = Some 80\<rparr>],
       requests_sent = [forecast_url ''52.52'' ''13.41''], files = []\<rparr>)"
  by (simp add: weather_report_def falsy_def arg_text_def zip3_def insert_or_replace_def)

text \<open>
  Claim C7, amended. For a provider response whose three sequences differ in length
  the handler, given both parameters and a working storage, reports no error: it
  answers with success, and the table is the old one with the positional triples
  upserted up to the length of the shortest sequence.
\<close>

theorem C7_unequal_lengths_truncate:
  assumes "\<not> falsy lat" and "\<not> falsy lon"
    and "length temperatures \<noteq> length timestamps \<or> length humidities \<noteq> length timestamps"
  shows "fst (weather_report (Hourly timestamps temperatures humidities) NoFault lat lon w) =
           Inr (length timestamps) \<and>
         db (snd (weather_report (Hourly timestamps temperatures humidities) NoFault lat lon w)) =
           upsert_all (db w) (zip3 timestamps temperatures humidities) \<and>
         length (zip3 timestamps temperatures humidities) =
           min (length timestamps) (min (length temperatures) (length humidities))"
  using assms
  by (simp add: weather_report_def Let_def execute_loop_no_execute_fault length_zip3)

theorem C7_unequal_lengths_truncate_witness:
  "\<not> falsy (Some ''52.52'') \<and> \<not> falsy (Some ''13.41'') \<and>
   length [Some (5 :: real)] \<noteq> length [''2024-01-01T00:00'', ''2024-01-01T01:00''] \<and>
   fst (weather_report (Hourly [''2024-01-01T00:00'', ''2024-01-01T01:00''] [Some 5]
          [Some 80, Some 82]) NoFault (Some ''52.52'') (Some ''13.41'')
          \<lparr>db = [], requests_sent = [], files = []\<rparr>) = Inr 2 \<and>
   length (zip3 [''2024-01-01T00:00'', ''2024-01-01T01:00''] [Some 5] [Some 80, Some 82]) = 1"
  using C7_unequal_lengths_truncate [of "Some ''52.52''" "Some ''13.41''" "[Some 5]"
      "[''2024-01-01T00:00'', ''2024-01-01T01:00'']" "[Some 80, Some 82]"
      "\<lparr>db = [], requests_sent = [], files = []\<rparr>"]
  by (simp add: falsy_def)

text \<open>
  Claim C8, as the code has it. The claim keeps the upserts made before a storage
  failure. Here the second of two statements fails: the handler answers with an error
  and the table is still empty, so the first upsert is not in the store.
\<close>

theorem C8_prefix_not_kept_counterexample:
  "weather_report (Hourly [''2024-01-01T00:00'', ''2024-01-01T01:00''] [Some 5, Some 5.5]
        [Some 80, Some 82]) (ExecuteFails 1) (Some ''52.52'') (Some ''13.41'')
        \<lparr>db = [], requests_sent = [], files = []\<rparr> =
     (Inl OtherError,
      \<lparr>db = [], requests_sent = [forecast_url ''52.52'' ''13.41''], files = []\<rparr>) \<and>
   \<lparr>timestamp = ''2024-01-01T00:00'', temperature = Some 5, humidity = Some 80\<rparr> \<notin>
     set (db (snd (weather_report (Hourly [''2024-01-01T00:00'', ''2024-01-01T01:00'']
        [Some 5, Some 5.5] [Some 80, Some 82]) (ExecuteFails 1) (Some ''52.52'') (Some ''13.41'')
        \<lparr>db = [], requests_sent = [], files = []\<rparr>)))"
  by (simp add: weather_report_def falsy_def arg_text_def zip3_def insert_or_replace_def)

text \<open>
  Claim C8, amended. When a statement of the batch fails, the handler answers with an
  error and the store is exactly as it was before the ingest: none of the batch's
  upserts is visible, those before the failure no more than those after it.
\<close>

theorem C8_failed_batch_leaves_store:
  assumes "\<not> falsy lat" and "\<not> falsy lon"
    and "k < length (zip3 timestamps temperatures humidities)"
  shows "fst (weather_report (Hourly timestamps temperatures humidities) (ExecuteFails k)
               lat lon w) = Inl OtherError \<and>
         db (snd (weather_report (Hourly timestamps temperatures humidities) (ExecuteFails k)
               lat lon w)) = db w"
proof -
  have "execute_loop (ExecuteFails k) 0 (db w) (zip3 timestamps temperatures humidities) = None"
    using assms(3) by (simp add: execute_loop_fault_inside)
  with assms(1,2) show ?thesis
    by (simp add: weather_report_def Let_def)
qed

theorem C8_failed_batch_leaves_store_witness:
  "\<not> falsy (Some ''52.52'') \<and> \<not> falsy (Some ''13.41'') \<and>
   1 < length (zip3 [''2024-01-01T01:00'', ''2024-01-01T02:00''] [Some 6, Some 7]
                 [Some 81, Some 82]) \<and>
   db (snd (weather_report (Hourly [''2024-01-01T01:00'', ''2024-01-01T02:00''] [Some 6, Some 7]
        [Some 81, Some 82]) (ExecuteFails 1) (Some ''52.52'') (Some ''13.41'')
        \<lparr>db = [\<lparr>timestamp = ''2024-01-01T00:00'', temperature = Some 5, humidity = Some 80\<rparr>],
         requests_sent = [], files = []\<rparr>)) =
     [\<lparr>timestamp = ''2024-01-01T00:00'', temperature = Some 5, humidity = Some 80\<rparr>]"
  using C8_failed_batch_leaves_store [of "Some ''52.52''" "Some ''13.41''" 1
      "[''2024-01-01T01:00'', ''2024-01-01T02:00'']" "[Some 6, Some 7]" "[Some 81, Some 82]"
      "\<lparr>db = [\<lparr>timestamp = ''2024-01-01T00:00'', temperature = Some 5, humidity = Some 80\<rparr>],
         requests_sent = [], files = []\<rparr>"]
  by (simp add: falsy_def zip3_def)

text \<open>
  Claim C10. After a successful ingest the rows whose timestamp is not among the
  batch's timestamps are the same rows as before, with the same temperature and
  humidity; and no operation deletes a row: whatever the ingest answers, every
  timestamp of the table is still in it, and the two exports leave the table as it
  is.
\<close>

theorem C10_frame_of_ingest:
  "(weather_report (Hourly timestamps temperatures humidities) f lat lon w = (Inr n, w') \<longrightarrow>
      filter (\<lambda>r. timestamp r \<notin> set timestamps) (db w') =
      filter (\<lambda>r. timestamp r \<notin> set timestamps) (db w) \<and>
      (\<forall>r \<in> set (db w). timestamp r \<notin> set timestamps \<longrightarrow> r \<in> set (db w'))) \<and>
   timestamp ` set (db w) \<subseteq> timestamp ` set (db (snd (weather_report provider f lat lon w))) \<and>
   db (snd (export_excel w)) = db w \<and>
   db (snd (export_pdf to_datetime strftime markup lat lon w)) = db w"
proof (intro conjI impI)
  assume ok: "weather_report (Hourly timestamps temperatures humidities) f lat lon w = (Inr n, w')"
  from weather_report_success [OF ok]
  have w': "db w' = upsert_all (db w) (zip3 timestamps temperatures humidities)"
    by auto
  show eq: "filter (\<lambda>r. timestamp r \<notin> set timestamps) (db w') =
        filter (\<lambda>r. timestamp r \<notin> set timestamps) (db w)"
    unfolding w' by (rule filter_upsert_all_other) (rule timestamps_zip3)
  show "\<forall>r \<in> set (db w). timestamp r \<notin> set timestamps \<longrightarrow> r \<in> set (db w')"
  proof (intro ballI impI)
    fix r assume "r \<in> set (db w)" and "timestamp r \<notin> set timestamps"
    then have "r \<in> set (filter (\<lambda>r. timestamp r \<notin> set timestamps) (db w))" by simp
    with eq have "r \<in> set (filter (\<lambda>r. timestamp r \<notin> set timestamps) (db w'))" by simp
    then show "r \<in> set (db w')" by simp
  qed
next
  show "timestamp ` set (db w) \<subseteq>
        timestamp ` set (db (snd (weather_report provider f lat lon w)))"
    using weather_report_db [of provider f lat lon w]
    by (auto simp: timestamps_upsert_all)
next
  show "db (snd (export_excel w)) = db w"
    by (simp add: export_excel_def)
next
  show "db (snd (export_pdf to_datetime strftime markup lat lon w)) = db w"
    by (simp add: export_pdf_def split: option.splits)
qed

theorem C10_frame_of_ingest_witness:
  "weather_report (Hourly [''2024-01-01T01:00''] [Some 9.9] [Some 70]) NoFault
     (Some ''52.52'') (Some ''13.41'')
     \<lparr>db = [\<lparr>timestamp = ''2024-01-01T00:00'', temperature = Some 5, humidity = Some 80\<rparr>,
            \<lparr>timestamp = ''2024-01-01T01:00'', temperature = Some 5.5, humidity = Some 82\<rparr>],
      requests_sent = [], files = []\<rparr> =
     (Inr 1,
      \<lparr>db = [\<lparr>timestamp = ''2024-01-01T00:00'', temperature = Some 5, humidity = Some 80\<rparr>,
             \<lparr>timestamp = ''2024-01-01T01:00'', temperature = Some 9.9, humidity = Some 70\<rparr>],
       requests_sent = [forecast_url ''52.52'' ''13.41''], files = []\<rparr>) \<and>
   filter (\<lambda>r. timestamp r \<notin> set [''2024-01-01T01:00''])
     [\<lparr>timestamp = ''2024-01-01T00:00'', temperature = Some 5, humidity = Some 80\<rparr>,
      \<lparr>timestamp = ''2024-01-01T01:00'', temperature = Some 9.9, humidity = Some 70\<rparr>] =
     [\<lparr>timestamp = ''2024-01-01T00:00'', temperature = Some 5, humidity = Some 80\<rparr>]"
  using C10_frame_of_ingest [of "[''2024-01-01T01:00'']" "[Some 9.9]" "[Some 70]" NoFault
      "Some ''52.52''" "Some ''13.41''"
      "\<lparr>db = [\<lparr>timestamp = ''2024-01-01T00:00'', temperature = Some 5, humidity = Some 80\<rparr>,
             \<lparr>timestamp = ''2024-01-01T01:00'', temperature = Some 5.5, humidity = Some 82\<rparr>],
        requests_sent = [], files = []\<rparr>" 1
      "\<lparr>db = [\<lparr>timestamp = ''2024-01-01T00:00'', temperature = Some 5, humidity = Some 80\<rparr>,
             \<lparr>timestamp = ''2024-01-01T01:00'', temperature = Some 9.9, humidity = Some 70\<rparr>],
        requests_sent = [forecast_url ''52.52'' ''13.41''], files = []\<rparr>"]
  by (simp add: weather_report_def falsy_def arg_text_def zip3_def insert_or_replace_def)

section \<open>Properties of the exports\<close>

text \<open>
  Claim C4. On a store without rows the table export answers with a sheet that has
  the header and no data row, and no error; the report answers with the error for
  missing data (status 404) and no document.
\<close>

theorem C4_empty_store_asymmetry:
  "fst (export_excel (w\<lparr>db := []\<rparr>)) =
     \<lparr>header = [''timestamp'', ''temperature'', ''humidity''], data_rows = []\<rparr> \<and>
   fst (export_pdf to_datetime strftime markup lat lon (w\<lparr>db := []\<rparr>)) = Inl NoDataAvailable \<and>
   status_code NoDataAvailable = 404"
  by (simp add: export_excel_def select_desc_limit_48_def export_pdf_def select_asc_def)

lemma select_desc_strictly_descending:
  assumes "primary_key t"
  shows "sorted_wrt (\<lambda>a b. timestamp b < timestamp a) (rev (sort_key timestamp t))"
proof -
  have "sorted (map timestamp (sort_key timestamp t))"
    by (rule sorted_sort_key)
  moreover have "distinct (map timestamp (sort_key timestamp t))"
    using assms by (simp add: primary_key_def distinct_map)
  ultimately have "sorted_wrt (<) (map timestamp (sort_key timestamp t))"
    by (simp add: strict_sorted_iff)
  then show ?thesis
    by (simp add: sorted_wrt_map sorted_wrt_rev)
qed

lemma sorted_wrt_take_drop:
  assumes "sorted_wrt P xs" and "a \<in> set (take n xs)" and "b \<in> set (drop n xs)"
  shows "P a b"
proof -
  from assms(1) have "sorted_wrt P (take n xs @ drop n xs)" by simp
  with assms(2,3) show ?thesis
    unfolding sorted_wrt_append by blast
qed

text \<open>
  Claim C3. On a store that keeps its primary key, the table export returns
  \<open>min 48 n\<close> of the \<open>n\<close> rows, strictly descending by timestamp, and they are the
  most recent ones: every row of the store that is left out is older than every row
  returned. A store of 60 rows gives exactly 48. The export takes nothing from the
  caller: 48 is the constant of the query.
\<close>

theorem C3_table_export_recent_48:
  assumes "primary_key (db w)"
  shows "length (data_rows (fst (export_excel w))) = min 48 (length (db w)) \<and>
         sorted_wrt (\<lambda>a b. timestamp b < timestamp a) (data_rows (fst (export_excel w))) \<and>
         set (data_rows (fst (export_excel w))) \<subseteq> set (db w) \<and>
         (\<forall>x \<in> set (db w) - set (data_rows (fst (export_excel w))).
            \<forall>y \<in> set (data_rows (fst (export_excel w))). timestamp x < timestamp y) \<and>
         (length (db w) = 60 \<longrightarrow> length (data_rows (fst (export_excel w))) = 48) \<and>
         header (fst (export_excel w)) = [''timestamp'', ''temperature'', ''humidity'']"
proof -
  let ?xs = "rev (sort_key timestamp (db w))"
  have rows: "data_rows (fst (export_excel w)) = take 48 ?xs"
    by (simp add: export_excel_def select_desc_limit_48_def)
  have desc: "sorted_wrt (\<lambda>a b. timestamp b < timestamp a) ?xs"
    using assms by (rule select_desc_strictly_descending)
  have len: "length (take 48 ?xs) = min 48 (length (db w))"
    by simp
  have sorted: "sorted_wrt (\<lambda>a b. timestamp b < timestamp a) (take 48 ?xs)"
    using desc by (rule sorted_wrt_take)
  have sub: "set (take 48 ?xs) \<subseteq> set (db w)"
    using set_take_subset [of 48 ?xs] by simp
  have older: "\<forall>x \<in> set (db w) - set (take 48 ?xs). \<forall>y \<in> set (take 48 ?xs).
                 timestamp x < timestamp y"
  proof (intro ballI)
    fix x y
    assume x: "x \<in> set (db w) - set (take 48 ?xs)" and y: "y \<in> set (take 48 ?xs)"
    have "set (db w) = set (take 48 ?xs @ drop 48 ?xs)" by simp
    with x have "x \<in> set (drop 48 ?xs)"
      unfolding set_append by blast
    with desc y show "timestamp x < timestamp y"
      by (rule sorted_wrt_take_drop)
  qed
  have hdr: "header (fst (export_excel w)) = [''timestamp'', ''temperature'', ''humidity'']"
    by (simp add: export_excel_def)
  from len sorted sub older hdr show ?thesis
    unfolding rows by simp
qed

theorem C3_table_export_recent_48_witness:
  "primary_key (db \<lparr>db = sample_rows 60, requests_sent = [], files = []\<rparr>) \<and>
   length (db \<lparr>db = sample_rows 60, requests_sent = [], files = []\<rparr>) = 60 \<and>
   length (data_rows (fst (export_excel
     \<lparr>db = sample_rows 60, requests_sent = [], files = []\<rparr>))) = 48"
proof -
  have pk: "primary_key (db \<lparr>db = sample_rows 60, requests_sent = [], files = []\<rparr>)"
    by code_simp
  have len: "length (db \<lparr>db = sample_rows 60, requests_sent = [], files = []\<rparr>) = 60"
    by code_simp
  from C3_table_export_recent_48 [OF pk] pk len show ?thesis
    by simp
qed

subsection \<open>The report on a store with rows\<close>








































end
